theory Spec2Isabelle
  imports Complex_Main
begin

section \<open>Result record (data\_types.cpp, PluginResultImpl)\<close>

text \<open>
  \<open>PluginResultImpl\<close> keeps three \<open>std::map\<close>s keyed by string, one per value type.
  A C++ \<open>double\<close> is modelled as a real number and an \<open>int\<close> as an integer; the three
  overloads of \<open>setData\<close> become three functions, and the getters return the source's
  defaults (empty string, 0.0, 0) for an absent key.
\<close>

record plugin_result =
  string_data :: "string \<rightharpoonup> string"
  double_data :: "string \<rightharpoonup> real"
  int_data :: "string \<rightharpoonup> int"

definition PluginResultImpl :: plugin_result where
  "PluginResultImpl = \<lparr>string_data = Map.empty, double_data = Map.empty, int_data = Map.empty\<rparr>"

definition setData_string :: "string \<Rightarrow> string \<Rightarrow> plugin_result \<Rightarrow> plugin_result" where
  "setData_string key v r = r\<lparr>string_data := (string_data r)(key \<mapsto> v)\<rparr>"

definition setData_double :: "string \<Rightarrow> real \<Rightarrow> plugin_result \<Rightarrow> plugin_result" where
  "setData_double key v r = r\<lparr>double_data := (double_data r)(key \<mapsto> v)\<rparr>"

definition setData_int :: "string \<Rightarrow> int \<Rightarrow> plugin_result \<Rightarrow> plugin_result" where
  "setData_int key v r = r\<lparr>int_data := (int_data r)(key \<mapsto> v)\<rparr>"

definition getStringData :: "plugin_result \<Rightarrow> string \<Rightarrow> string" where
  "getStringData r key = (case string_data r key of Some v \<Rightarrow> v | None \<Rightarrow> [])"

definition getDoubleData :: "plugin_result \<Rightarrow> string \<Rightarrow> real" where
  "getDoubleData r key = (case double_data r key of Some v \<Rightarrow> v | None \<Rightarrow> 0)"

definition getIntData :: "plugin_result \<Rightarrow> string \<Rightarrow> int" where
  "getIntData r key = (case int_data r key of Some v \<Rightarrow> v | None \<Rightarrow> 0)"

definition hasData :: "plugin_result \<Rightarrow> string \<Rightarrow> bool" where
  "hasData r key \<longleftrightarrow>
     string_data r key \<noteq> None \<or> double_data r key \<noteq> None \<or> int_data r key \<noteq> None"

text \<open>A write of any of the three value types, as one value.\<close>

datatype result_value = StringValue string | DoubleValue real | IntValue int

fun setData :: "string \<Rightarrow> result_value \<Rightarrow> plugin_result \<Rightarrow> plugin_result" where
  "setData key (StringValue v) r = setData_string key v r"
| "setData key (DoubleValue v) r = setData_double key v r"
| "setData key (IntValue v) r = setData_int key v r"

text \<open>Reading the slot that a value of the given type is written to.\<close>

fun getData :: "plugin_result \<Rightarrow> string \<Rightarrow> result_value \<Rightarrow> result_value" where
  "getData r key (StringValue _) = StringValue (getStringData r key)"
| "getData r key (DoubleValue _) = DoubleValue (getDoubleData r key)"
| "getData r key (IntValue _) = IntValue (getIntData r key)"


section \<open>Threshold classification (decision\_plugin\_base.cpp)\<close>

text \<open>
  \<open>calculateFeatureStatus\<close> scans the thresholds by index and returns the first index
  whose threshold the value does not exceed, or the number of thresholds.
\<close>

function calculateFeatureStatus_loop :: "real \<Rightarrow> real list \<Rightarrow> nat \<Rightarrow> int" where
  "calculateFeatureStatus_loop feature_value threshold i =
     (if i < length threshold
      then (if feature_value \<le> threshold ! i then int i
            else calculateFeatureStatus_loop feature_value threshold (Suc i))
      else int (length threshold))"
  by pat_completeness auto
termination
  by (relation "measure (\<lambda>(v, t, i). length t - i)") auto

declare calculateFeatureStatus_loop.simps [simp del]

definition calculateFeatureStatus :: "real \<Rightarrow> real list \<Rightarrow> int" where
  "calculateFeatureStatus feature_value threshold =
     calculateFeatureStatus_loop feature_value threshold 0"

text \<open>
  The parameters of \<open>UniversalClassifyPluginBase\<close> (with the selections of the concrete
  plugin, which the base class reads through virtual getters). \<open>transition_width_\<close> and
  \<open>time_series_width_\<close> are vectors that always hold two entries; they are pairs here.
\<close>

record classify_config =
  select_features :: "string list"
  thresholds :: "real list list"
  status_mapping :: "int \<rightharpoonup> string"
  offline_length :: int
  transition_status :: int
  time_series_status :: int
  transition_width :: "int \<times> int"
  time_series_width :: "int \<times> int"
  run_feature_num :: int
  veto_index :: int

definition run_count_of :: "int list \<Rightarrow> int" where
  "run_count_of feature_statuses =
     fold (\<lambda>status run_count. if status > 0 then run_count + 1 else run_count) feature_statuses 0"

definition calculateOverallStatus :: "classify_config \<Rightarrow> int list \<Rightarrow> int" where
  "calculateOverallStatus cfg feature_statuses =
     (if feature_statuses = [] then 0
      else if veto_index cfg \<ge> 0 \<and> veto_index cfg < int (length feature_statuses)
              \<and> feature_statuses ! nat (veto_index cfg) = 0 then 0
      else if run_count_of feature_statuses \<ge> run_feature_num cfg then 1 else 0)"

text \<open>
  The input variants that \<open>dynamic_pointer_cast\<close> tells apart. Only the feature map of
  a \<open>FeatureData\<close> is read here.
\<close>

datatype plugin_data =
    RealTimeData "string \<rightharpoonup> real"
  | BatchData "real list"
  | FeatureData "string \<rightharpoonup> real"
  | StatusData int

text \<open>
  A \<open>system_clock::time_point\<close> is its count of clock ticks since the epoch; the
  default-constructed \<open>time_point{}\<close> is 0. The clock ticks in nanoseconds, and
  \<open>duration_cast<seconds>\<close> truncates towards zero.
\<close>

type_synonym time_point = int

definition ticks_per_second :: int where
  "ticks_per_second = 1000000000"

definition duration_seconds :: "time_point \<Rightarrow> time_point \<Rightarrow> int" where
  "duration_seconds later earlier =
     (let d = later - earlier
      in if 0 \<le> d then d div ticks_per_second else - ((- d) div ticks_per_second))"

text \<open>
  \<open>setError\<close> stores a message; the messages are tags here. \<open>None\<close> is the empty
  message of a fresh plugin. The statuses and counters are C++ \<open>int\<close>s; they are
  integers here (a counter moves by one per call; its overflow is not modelled).
\<close>

datatype classify_error =
    InputTypeError
  | MissingFeature string
  | ClassifyException

record classify_state =
  prev_time :: time_point
  time_point_0 :: time_point
  time_point_1 :: time_point
  transition_counter :: int
  close_counter :: int
  time_series_counter :: int
  prev_status :: int
  status_history :: "int list"
  last_error :: "classify_error option"

definition max_history_size :: nat where
  "max_history_size = 10"

definition addStatusToHistory :: "int \<Rightarrow> classify_state \<Rightarrow> classify_state" where
  "addStatusToHistory status st =
     (let h = status_history st @ [status]
      in st\<lparr>status_history := (if length h > max_history_size then tl h else h)\<rparr>)"

text \<open>
  \<open>getMostFrequentStatus\<close> counts into a \<open>std::map\<close> (keys ascending) and takes
  \<open>std::max_element\<close> on the counts, which keeps the first of several maxima.
\<close>

definition getMostFrequentStatus :: "classify_state \<Rightarrow> int" where
  "getMostFrequentStatus st =
     (let h = status_history st
      in if h = [] then - 1
         else let keys = sort (remdups h)
              in fold (\<lambda>k best. if count_list h best < count_list h k then k else best)
                   (tl keys) (hd keys))"

definition calculateConfidence :: "classify_state \<Rightarrow> int list \<Rightarrow> real" where
  "calculateConfidence st feature_statuses =
     (if feature_statuses = [] then 0
      else real (fold (\<lambda>status consistent_count.
                    if status = getMostFrequentStatus st then consistent_count + 1
                    else consistent_count) feature_statuses (0::nat))
           / real (length feature_statuses))"

definition resetState :: "classify_state \<Rightarrow> classify_state" where
  "resetState st =
     st\<lparr>transition_counter := 0, close_counter := 0, time_series_counter := 0,
        prev_status := - 1, time_point_0 := 0, time_point_1 := 0\<rparr>"

definition offlineCheck :: "classify_config \<Rightarrow> time_point \<Rightarrow> classify_state \<Rightarrow> classify_state" where
  "offlineCheck cfg current_time st =
     (let st1 = (if prev_time st \<noteq> 0
                    \<and> duration_seconds current_time (prev_time st) > offline_length cfg
                 then resetState st else st)
      in st1\<lparr>prev_time := current_time\<rparr>)"

text \<open>\<open>Motor97Plugin::handleTransition\<close>: the flag and the counters it leaves.\<close>

definition handleTransition ::
  "classify_config \<Rightarrow> int \<Rightarrow> int \<Rightarrow> classify_state \<Rightarrow> bool \<times> classify_state" where
  "handleTransition cfg current_status previous_status st =
     (if current_status = 1 \<and> previous_status = 0 then
        (let st1 = st\<lparr>transition_counter := transition_counter st + 1\<rparr>
         in if transition_counter st1 \<ge> fst (transition_width cfg)
            then (True, st1\<lparr>transition_counter := 0\<rparr>)
            else (False, st1))
      else if current_status = 0 \<and> previous_status = 1 then
        (let st1 = st\<lparr>close_counter := close_counter st + 1\<rparr>
         in if close_counter st1 \<ge> snd (transition_width cfg)
            then (False, st1\<lparr>close_counter := 0, transition_counter := 0\<rparr>)
            else (False, st1))
      else (False, st))"

definition handleTimeSeriesTransition ::
  "classify_config \<Rightarrow> int \<Rightarrow> int \<Rightarrow> classify_state \<Rightarrow> bool \<times> classify_state" where
  "handleTimeSeriesTransition cfg current_status previous_status st =
     (if fst (time_series_width cfg) > 0 then
        (if current_status \<noteq> previous_status then
           (let st1 = st\<lparr>time_series_counter := time_series_counter st + 1\<rparr>
            in if time_series_counter st1 \<ge> fst (time_series_width cfg)
               then (True, st1\<lparr>time_series_counter := 0\<rparr>)
               else (False, st1))
         else (False, st\<lparr>time_series_counter := 0\<rparr>))
      else (False, st))"

text \<open>
  The loop of \<open>classifyStatus\<close> over the selected features. The threshold list of a
  feature is \<open>getThresholds()[feature_statuses.size()]\<close>; an index past the end of that
  vector is undefined behaviour in the source, and \<open>None\<close> here.
\<close>

fun featureStatuses ::
  "(string \<rightharpoonup> real) \<Rightarrow> real list list \<Rightarrow> string list \<Rightarrow> int list
     \<Rightarrow> (classify_error + int list) option" where
  "featureStatuses features ths [] feature_statuses = Some (Inr feature_statuses)"
| "featureStatuses features ths (feature_name # rest) feature_statuses =
     (case features feature_name of
        Some v \<Rightarrow>
          (if length feature_statuses < length ths
           then featureStatuses features ths rest
                  (feature_statuses @ [calculateFeatureStatus v (ths ! length feature_statuses)])
           else None)
      | None \<Rightarrow> Some (Inl (MissingFeature feature_name)))"

text \<open>
  The transition block of \<open>classifyStatus\<close>: it runs only when a previous status is
  known and differs from the overall status, and the second handler sees the status the
  first one left.
\<close>

definition transitionBlock ::
  "classify_config \<Rightarrow> int \<Rightarrow> classify_state \<Rightarrow> int \<times> classify_state" where
  "transitionBlock cfg overall_status st =
     (if prev_status st \<noteq> - 1 \<and> overall_status \<noteq> prev_status st then
        (let (t, st1) = handleTransition cfg overall_status (prev_status st) st;
             overall1 = (if t then transition_status cfg else overall_status);
             (ts, st2) = handleTimeSeriesTransition cfg overall1 (prev_status st1) st1;
             overall2 = (if ts then time_series_status cfg else overall1)
         in (overall2, st2))
      else (overall_status, st))"

text \<open>
  \<open>UniversalClassifyPluginBase::classifyStatus\<close> at clock reading \<open>now\<close>. The result is
  the returned flag, the plugin's state and the output record. \<open>std::map::at\<close> throws
  for a status without a name; the handler turns that into a failed call, after the
  state and the \<open>status\<close> slot have been written.
\<close>

definition classifyStatus ::
  "classify_config \<Rightarrow> time_point \<Rightarrow> plugin_data \<Rightarrow> classify_state \<Rightarrow> plugin_result
     \<Rightarrow> (bool \<times> classify_state \<times> plugin_result) option" where
  "classifyStatus cfg now input st output =
     (case input of
        FeatureData features \<Rightarrow>
          (let st1 = offlineCheck cfg now st
           in case featureStatuses features (thresholds cfg) (select_features cfg) [] of
                None \<Rightarrow> None
              | Some (Inl e) \<Rightarrow> Some (False, st1\<lparr>last_error := Some e\<rparr>, output)
              | Some (Inr feature_statuses) \<Rightarrow>
                  (let (overall_status, st2) =
                         transitionBlock cfg (calculateOverallStatus cfg feature_statuses) st1;
                       st3 = (addStatusToHistory overall_status st2)\<lparr>prev_status := overall_status\<rparr>;
                       out1 = setData_int ''status'' overall_status output
                   in case status_mapping cfg overall_status of
                        None \<Rightarrow> Some (False, st3\<lparr>last_error := Some ClassifyException\<rparr>, out1)
                      | Some status_name \<Rightarrow>
                          Some (True, st3,
                            setData_double ''confidence'' (calculateConfidence st3 feature_statuses)
                              (setData_string ''status_name'' status_name out1))))
      | _ \<Rightarrow> Some (False, st\<lparr>last_error := Some InputTypeError\<rparr>, output))"

text \<open>
  The default parameters of the base class with the four statuses that
  \<open>parseStatusMapping\<close> installs (their names written in ASCII), and a fresh plugin's
  state.
\<close>

definition default_classify_config :: "string list \<Rightarrow> real list list \<Rightarrow> classify_config" where
  "default_classify_config features ths =
     \<lparr>select_features = features, thresholds = ths,
      status_mapping = [0 \<mapsto> ''stopped'', 1 \<mapsto> ''running'', 2 \<mapsto> ''transition'', 3 \<mapsto> ''abnormal''],
      offline_length = 3600, transition_status = 2, time_series_status = 5,
      transition_width = (60, 10), time_series_width = (0, 0),
      run_feature_num = 1, veto_index = - 1\<rparr>"

definition initial_classify_state :: classify_state where
  "initial_classify_state =
     \<lparr>prev_time = 0, time_point_0 = 0, time_point_1 = 0, transition_counter = 0,
      close_counter = 0, time_series_counter = 0, prev_status = - 1, status_history = [],
      last_error = None\<rparr>"

text \<open>
  What a caller sees of one call: the status it emitted (when the call succeeded), and
  the state it left.
\<close>

definition emitted_status :: "(bool \<times> classify_state \<times> plugin_result) option \<Rightarrow> int option" where
  "emitted_status r =
     (case r of
        Some (ok, st, out) \<Rightarrow> if ok then Some (getIntData out ''status'') else None
      | None \<Rightarrow> None)"

definition state_after :: "(bool \<times> classify_state \<times> plugin_result) option \<Rightarrow> classify_state" where
  "state_after r = fst (snd (the r))"


section \<open>Score alarms (event\_plugin\_base.cpp)\<close>

text \<open>
  The parameters a score-alarm plugin is initialised with: the two required arrays, and
  the two optional integers (\<open>None\<close> when the key is absent).
\<close>

record score_alarm_parameters =
  health_define :: "string list"
  alarm_line :: "real list"
  tolerable_length_param :: "int option"
  alarm_interval_param :: "int option"

record score_alarm_config =
  health_definitions :: "string list"
  alarm_lines :: "real list"
  tolerable_length :: int
  alarm_interval :: int

text \<open>\<open>ScoreAlarm5Plugin::validateParameters\<close>; \<open>None\<close> is the failed validation.\<close>

definition validateParameters :: "score_alarm_parameters \<Rightarrow> score_alarm_config option" where
  "validateParameters parameters =
     (if health_define parameters = [] then None
      else if alarm_line parameters = [] then None
      else Some \<lparr>health_definitions = health_define parameters,
                 alarm_lines = alarm_line parameters,
                 tolerable_length = (case tolerable_length_param parameters of Some n \<Rightarrow> n | None \<Rightarrow> 5),
                 alarm_interval = (case alarm_interval_param parameters of Some n \<Rightarrow> n | None \<Rightarrow> 180)\<rparr>)"

record score_alarm_state =
  last_alarm_time :: "string \<rightharpoonup> time_point"
  alarm_count :: "string \<rightharpoonup> int"
  tolerable_count :: "string \<rightharpoonup> int"

definition initial_score_alarm_state :: score_alarm_state where
  "initial_score_alarm_state =
     \<lparr>last_alarm_time = Map.empty, alarm_count = Map.empty, tolerable_count = Map.empty\<rparr>"

definition shouldTriggerAlarm ::
  "score_alarm_config \<Rightarrow> time_point \<Rightarrow> score_alarm_state \<Rightarrow> string \<Rightarrow> real \<Rightarrow> bool" where
  "shouldTriggerAlarm cfg now st health_name score =
     (if (case last_alarm_time st health_name of
            Some t \<Rightarrow> duration_seconds now t < alarm_interval cfg
          | None \<Rightarrow> False)
      then False
      else
        (let current_count = (case alarm_count st health_name of Some c \<Rightarrow> c | None \<Rightarrow> 0);
             tolerable = (case tolerable_count st health_name of Some c \<Rightarrow> c | None \<Rightarrow> 0)
         in if current_count < tolerable then False else True))"

definition updateAlarmState ::
  "time_point \<Rightarrow> string \<Rightarrow> real \<Rightarrow> score_alarm_state \<Rightarrow> score_alarm_state" where
  "updateAlarmState now health_name score st =
     st\<lparr>last_alarm_time := (last_alarm_time st)(health_name \<mapsto> now),
        alarm_count := (alarm_count st)(health_name \<mapsto>
           (case alarm_count st health_name of Some c \<Rightarrow> c + 1 | None \<Rightarrow> 1)),
        tolerable_count := (tolerable_count st)(health_name \<mapsto> 0)\<rparr>"


section \<open>Health composition (evaluation\_plugin\_base.cpp)\<close>

record health_config =
  name :: string
  formula :: string
  weights :: "real list"
  dependencies :: "string list"

text \<open>
  A finite \<open>double\<close> is the real number it denotes, but the arithmetic of doubles
  rounds: the sum the code computes need not be the sum of the real numbers. The rounded
  operations that the composition uses are taken as arguments, so that what is proved
  holds however they round: \<open>double_add a b\<close> is the double that \<open>a + b\<close> yields,
  \<open>double_muladd a x y\<close> the double that \<open>a += x * y\<close> leaves in \<open>a\<close>, and
  \<open>double_div a b\<close> the double that \<open>a / b\<close> yields. The literals \<open>0.0\<close> and
  \<open>100.0\<close> are doubles, and the comparison \<open>total_weight > 0\<close> is exact.
\<close>

record double_ops =
  double_add :: "real \<Rightarrow> real \<Rightarrow> real"
  double_muladd :: "real \<Rightarrow> real \<Rightarrow> real \<Rightarrow> real"
  double_div :: "real \<Rightarrow> real \<Rightarrow> real"

text \<open>
  The inner loop of \<open>calculateOverallHealth\<close> runs while the index is inside both the
  dependencies and the weights, and adds a dependency in only when its score is found.
  The result is \<open>(weighted_sum, total_weight)\<close>, each a running total in double
  arithmetic.
\<close>

fun weighted_loop ::
  "double_ops \<Rightarrow> (string \<rightharpoonup> real) \<Rightarrow> string list \<Rightarrow> real list \<Rightarrow> real \<Rightarrow> real
     \<Rightarrow> real \<times> real" where
  "weighted_loop dops feature_scores (d # ds) (w # ws) weighted_sum total_weight =
     (case feature_scores d of
        Some score \<Rightarrow>
          weighted_loop dops feature_scores ds ws
            (double_muladd dops weighted_sum score w) (double_add dops total_weight w)
      | None \<Rightarrow> weighted_loop dops feature_scores ds ws weighted_sum total_weight)"
| "weighted_loop dops feature_scores ds ws weighted_sum total_weight =
     (weighted_sum, total_weight)"

definition health_of :: "double_ops \<Rightarrow> health_config \<Rightarrow> (string \<rightharpoonup> real) \<Rightarrow> real" where
  "health_of dops config feature_scores =
     (if formula config = ''weighted_average'' then
        (let (weighted_sum, total_weight) =
               weighted_loop dops feature_scores (dependencies config) (weights config) 0 0
         in if total_weight > 0 then double_div dops weighted_sum total_weight else 100)
      else 100)"

definition calculateOverallHealth ::
  "double_ops \<Rightarrow> health_config list \<Rightarrow> (string \<rightharpoonup> real) \<Rightarrow> (string \<rightharpoonup> real)" where
  "calculateOverallHealth dops configs feature_scores =
     fold (\<lambda>config health_scores.
             health_scores(name config \<mapsto> health_of dops config feature_scores))
       configs Map.empty"

text \<open>
  The sum of the weights of the dependencies that resolve, as the specification words
  it and as the code can form it: the weights paired with a dependency that has a score,
  added in the declared order, in double arithmetic, starting from \<open>0.0\<close>.
\<close>

definition resolved_weights :: "(string \<rightharpoonup> real) \<Rightarrow> health_config \<Rightarrow> real list" where
  "resolved_weights feature_scores config =
     map snd (filter (\<lambda>(d, w). feature_scores d \<noteq> None)
                (zip (dependencies config) (weights config)))"

definition resolved_weight_sum :: "double_ops \<Rightarrow> (string \<rightharpoonup> real) \<Rightarrow> health_config \<Rightarrow> real" where
  "resolved_weight_sum dops feature_scores config =
     foldl (double_add dops) 0 (resolved_weights feature_scores config)"

text \<open>
  Double operations on operands whose exact result is a double: nothing is rounded.
  They serve the evaluation of the composition on such operands.
\<close>

definition exact_double_ops :: double_ops where
  "exact_double_ops =
     \<lparr>double_add = (\<lambda>a b. a + b), double_muladd = (\<lambda>a x y. a + x * y),
      double_div = (\<lambda>a b. a / b)\<rparr>"


section \<open>Plugin registry and chains (plugin\_manager.cpp)\<close>

text \<open>
  A plugin instance is a value of type \<open>'p\<close>, its parameters a value of type \<open>'a\<close>.
  The virtual methods of \<open>IPlugin\<close> that the managers call are the two functions of
  \<open>plugin_ops\<close>: each returns the method's flag with the plugin as the call left it,
  and \<open>process\<close> also returns the result record as the call left it.
\<close>

record ('p, 'a) plugin_ops =
  initialize :: "'p \<Rightarrow> 'a \<Rightarrow> bool \<times> 'p"
  process :: "'p \<Rightarrow> plugin_data \<Rightarrow> plugin_result \<Rightarrow> bool \<times> 'p \<times> plugin_result"

text \<open>
  The registry \<open>plugin_factories_\<close> maps a plugin name to a factory; a factory is what its
  \<open>createPlugin()\<close> returns, a fresh plugin or \<open>nullptr\<close> (\<open>None\<close>). The singleton
  \<open>PluginManager::getInstance()\<close> is passed as an argument.
\<close>

type_synonym 'p plugin_factories = "string \<rightharpoonup> 'p option"

definition getPluginFactory :: "'p plugin_factories \<Rightarrow> string \<Rightarrow> 'p option option" where
  "getPluginFactory manager plugin_name = manager plugin_name"

definition isPluginAvailable :: "'p plugin_factories \<Rightarrow> string \<Rightarrow> bool" where
  "isPluginAvailable manager plugin_name \<longleftrightarrow> manager plugin_name \<noteq> None"

definition createPlugin :: "'p plugin_factories \<Rightarrow> string \<Rightarrow> 'p option" where
  "createPlugin manager plugin_name =
     (case getPluginFactory manager plugin_name of None \<Rightarrow> None | Some factory \<Rightarrow> factory)"

text \<open>
  \<open>createPlugin(chain, params)\<close>: a plugin is initialised only when parameters are
  given, and a plugin whose initialisation fails is dropped.
\<close>

definition createPlugin_params ::
  "('p, 'a) plugin_ops \<Rightarrow> 'p plugin_factories \<Rightarrow> string \<Rightarrow> 'a option \<Rightarrow> 'p option" where
  "createPlugin_params ops manager plugin_name params =
     (case createPlugin manager plugin_name of
        None \<Rightarrow> None
      | Some plugin \<Rightarrow>
          (case params of
             None \<Rightarrow> Some plugin
           | Some ps \<Rightarrow>
               (let (ok, plugin1) = initialize ops plugin ps
                in if ok then Some plugin1 else None)))"

record 'a ChainConfig =
  chain_name :: string
  plugin_names :: "string list"
  plugin_params :: "'a option list"
  data_mappings :: "string \<rightharpoonup> string"

record ('p, 'a) PluginChainManager =
  plugin_chains :: "string \<rightharpoonup> 'a ChainConfig"
  plugin_instances :: "string \<rightharpoonup> (string \<rightharpoonup> 'p)"

definition empty_chain_manager :: "('p, 'a) PluginChainManager" where
  "empty_chain_manager = \<lparr>plugin_chains = Map.empty, plugin_instances = Map.empty\<rparr>"

definition isChainAvailable :: "('p, 'a) PluginChainManager \<Rightarrow> string \<Rightarrow> bool" where
  "isChainAvailable cm chain \<longleftrightarrow> plugin_chains cm chain \<noteq> None"

definition getChainPlugins :: "('p, 'a) PluginChainManager \<Rightarrow> string \<Rightarrow> string list" where
  "getChainPlugins cm chain =
     (case plugin_chains cm chain of Some config \<Rightarrow> plugin_names config | None \<Rightarrow> [])"

text \<open>\<open>plugin_instances_[chain_name][plugin_name] = plugin\<close>.\<close>

definition store_instance ::
  "string \<Rightarrow> string \<Rightarrow> 'p \<Rightarrow> ('p, 'a) PluginChainManager \<Rightarrow> ('p, 'a) PluginChainManager" where
  "store_instance chain plugin_name plugin cm =
     cm\<lparr>plugin_instances := (plugin_instances cm)(chain \<mapsto>
          (case plugin_instances cm chain of None \<Rightarrow> Map.empty | Some instances \<Rightarrow> instances)
            (plugin_name \<mapsto> plugin))\<rparr>"

function initializeChainPlugins_loop ::
  "('p, 'a) plugin_ops \<Rightarrow> 'p plugin_factories \<Rightarrow> string \<Rightarrow> 'a ChainConfig \<Rightarrow> nat
     \<Rightarrow> ('p, 'a) PluginChainManager \<Rightarrow> bool \<times> ('p, 'a) PluginChainManager" where
  "initializeChainPlugins_loop ops manager chain config i cm =
     (if i < length (plugin_names config) then
        (let plugin_name = plugin_names config ! i;
             params = (if i < length (plugin_params config) then plugin_params config ! i else None)
         in case createPlugin_params ops manager plugin_name params of
              None \<Rightarrow> (False, cm)
            | Some plugin \<Rightarrow>
                initializeChainPlugins_loop ops manager chain config (Suc i)
                  (store_instance chain plugin_name plugin cm))
      else (True, cm))"
  by pat_completeness auto
termination
  by (relation "measure (\<lambda>(ops, manager, chain, config, i, cm). length (plugin_names config) - i)")
     auto

declare initializeChainPlugins_loop.simps [simp del]

definition initializeChainPlugins ::
  "('p, 'a) plugin_ops \<Rightarrow> 'p plugin_factories \<Rightarrow> string \<Rightarrow> ('p, 'a) PluginChainManager
     \<Rightarrow> bool \<times> ('p, 'a) PluginChainManager" where
  "initializeChainPlugins ops manager chain cm =
     (case plugin_chains cm chain of
        None \<Rightarrow> (False, cm)
      | Some config \<Rightarrow> initializeChainPlugins_loop ops manager chain config 0 cm)"

definition createChain ::
  "('p, 'a) plugin_ops \<Rightarrow> 'p plugin_factories \<Rightarrow> 'a ChainConfig \<Rightarrow> ('p, 'a) PluginChainManager
     \<Rightarrow> bool \<times> ('p, 'a) PluginChainManager" where
  "createChain ops manager config cm =
     (if chain_name config = [] \<or> plugin_names config = [] then (False, cm)
      else if \<not> list_all (isPluginAvailable manager) (plugin_names config) then (False, cm)
      else initializeChainPlugins ops manager (chain_name config)
             (cm\<lparr>plugin_chains := (plugin_chains cm)(chain_name config \<mapsto> config)\<rparr>))"

definition executePluginInChain ::
  "('p, 'a) plugin_ops \<Rightarrow> string \<Rightarrow> string \<Rightarrow> plugin_data \<Rightarrow> plugin_result
     \<Rightarrow> ('p, 'a) PluginChainManager \<Rightarrow> bool \<times> ('p, 'a) PluginChainManager \<times> plugin_result" where
  "executePluginInChain ops chain plugin_name input_data output_result cm =
     (case plugin_instances cm chain of
        None \<Rightarrow> (False, cm, output_result)
      | Some instances \<Rightarrow>
          (case instances plugin_name of
             None \<Rightarrow> (False, cm, output_result)
           | Some plugin \<Rightarrow>
               (let (ok, plugin1, result1) = process ops plugin input_data output_result
                in (ok,
                    cm\<lparr>plugin_instances :=
                         (plugin_instances cm)(chain \<mapsto> instances(plugin_name \<mapsto> plugin1))\<rparr>,
                    result1))))"

definition convertDataForPlugin :: "plugin_data \<Rightarrow> 'p option \<Rightarrow> plugin_data" where
  "convertDataForPlugin input_data target_plugin = input_data"

text \<open>
  The loop of \<open>executeChain\<close> over the indices of \<open>plugin_names\<close>; \<open>current_result\<close> is
  the one record every stage writes to. The result is the flag, the manager (with the
  plugins as the calls left them) and \<open>current_result\<close>.
\<close>

function executeChain_loop ::
  "('p, 'a) plugin_ops \<Rightarrow> string \<Rightarrow> 'a ChainConfig \<Rightarrow> nat \<Rightarrow> plugin_data \<Rightarrow> plugin_result
     \<Rightarrow> ('p, 'a) PluginChainManager \<Rightarrow> bool \<times> ('p, 'a) PluginChainManager \<times> plugin_result" where
  "executeChain_loop ops chain config i current_data current_result cm =
     (if i < length (plugin_names config) then
        (let plugin_name = plugin_names config ! i
         in case executePluginInChain ops chain plugin_name current_data current_result cm of
              (ok, cm1, result1) \<Rightarrow>
                if \<not> ok then (False, cm1, result1)
                else executeChain_loop ops chain config (Suc i)
                       (if i < length (plugin_names config) - 1
                        then convertDataForPlugin current_data
                               (case plugin_instances cm1 chain of
                                  None \<Rightarrow> None | Some instances \<Rightarrow> instances plugin_name)
                        else current_data)
                       result1 cm1)
      else (True, cm, current_result))"
  by pat_completeness auto
termination
  by (relation "measure (\<lambda>(ops, chain, config, i, d, r, cm). length (plugin_names config) - i)")
     auto

declare executeChain_loop.simps [simp del]

text \<open>
  \<open>*output_result = *current_result\<close> assigns through two references of static type
  \<open>PluginResult\<close>, the abstract base class. Its implicit copy assignment copies the
  members of \<open>PluginResult\<close>, and it has none: the three maps of the
  \<open>PluginResultImpl\<close> behind \<open>output_result\<close> stay as they were.
\<close>

definition PluginResult_assign :: "plugin_result \<Rightarrow> plugin_result \<Rightarrow> plugin_result" where
  "PluginResult_assign target source = target"

definition executeChain ::
  "('p, 'a) plugin_ops \<Rightarrow> string \<Rightarrow> plugin_data \<Rightarrow> plugin_result \<Rightarrow> ('p, 'a) PluginChainManager
     \<Rightarrow> bool \<times> ('p, 'a) PluginChainManager \<times> plugin_result" where
  "executeChain ops chain input_data output_result cm =
     (case plugin_chains cm chain of
        None \<Rightarrow> (False, cm, output_result)
      | Some config \<Rightarrow>
          (case executeChain_loop ops chain config 0 input_data PluginResultImpl cm of
             (ok, cm1, current_result) \<Rightarrow>
               if ok then (True, cm1, PluginResult_assign output_result current_result)
               else (False, cm1, output_result)))"

text \<open>
  The specification's wording of a chain run, to compare the loop with: the stages run
  one after the other in the declared order, each on the record the stage before left,
  and the run stops at the first stage that has no instance or whose \<open>process\<close> fails.
\<close>

fun run_stages_in_order ::
  "('p, 'a) plugin_ops \<Rightarrow> (string \<rightharpoonup> 'p) \<Rightarrow> string list \<Rightarrow> plugin_data \<Rightarrow> plugin_result
     \<Rightarrow> bool \<times> (string \<rightharpoonup> 'p) \<times> plugin_result" where
  "run_stages_in_order ops instances [] d r = (True, instances, r)"
| "run_stages_in_order ops instances (stage # stages) d r =
     (case instances stage of
        None \<Rightarrow> (False, instances, r)
      | Some plugin \<Rightarrow>
          (case process ops plugin d r of
             (ok, plugin1, r1) \<Rightarrow>
               if ok then run_stages_in_order ops (instances(stage \<mapsto> plugin1)) stages d r1
               else (False, instances(stage \<mapsto> plugin1), r1)))"

text \<open>
  An example plugin for the evaluations below: its state is whether its \<open>process\<close>
  succeeds and how often \<open>process\<close> has run; its parameters are valid or not; each run
  writes its count to the record.
\<close>

definition counting_ops :: "(bool \<times> nat, bool) plugin_ops" where
  "counting_ops =
     \<lparr>initialize = (\<lambda>plugin valid. (valid, plugin)),
      process = (\<lambda>(works, calls) d r. (works, (works, Suc calls), setData_int ''calls'' (int (Suc calls)) r))\<rparr>"


section \<open>Properties of the result record\<close>

text \<open>
  Claim C10. Of two successive writes to one key the later wins: a read of the slot the
  second value was written to returns the second value, whatever the type of the first
  write, and \<open>hasData\<close> holds for the key. A write to one key leaves what every getter
  and \<open>hasData\<close> return for every other key unchanged.
\<close>

theorem setData_last_write_wins:
  "getData (setData key v2 (setData key v1 r)) key v2 = v2
   \<and> hasData (setData key v2 (setData key v1 r)) key
   \<and> (\<forall>other. other \<noteq> key \<longrightarrow>
        getStringData (setData key v1 r) other = getStringData r other
      \<and> getDoubleData (setData key v1 r) other = getDoubleData r other
      \<and> getIntData (setData key v1 r) other = getIntData r other
      \<and> hasData (setData key v1 r) other = hasData r other)"
  by (cases v1; cases v2)
     (simp_all add: setData_string_def setData_double_def setData_int_def
        getStringData_def getDoubleData_def getIntData_def hasData_def)

theorem setData_last_write_wins_witness:
  "getData (setData ''status'' (IntValue 1) (setData ''status'' (StringValue ''run'') PluginResultImpl))
      ''status'' (IntValue 1) = IntValue 1
   \<and> ''confidence'' \<noteq> ''status''
   \<and> hasData (setData ''status'' (StringValue ''run'') PluginResultImpl) ''confidence''
       = hasData PluginResultImpl ''confidence''"
  using setData_last_write_wins [of "''status''" "IntValue 1" "StringValue ''run''" PluginResultImpl]
  by simp


section \<open>Properties of the threshold classification\<close>

lemma calculateFeatureStatus_loop_skip:
  "i \<le> k \<Longrightarrow> k \<le> length threshold \<Longrightarrow> \<forall>j. i \<le> j \<and> j < k \<longrightarrow> threshold ! j < v \<Longrightarrow>
   calculateFeatureStatus_loop v threshold i = calculateFeatureStatus_loop v threshold k"
proof (induction "k - i" arbitrary: i)
  case 0
  then show ?case by simp
next
  case (Suc d)
  then have less: "i < k" and here: "threshold ! i < v" by auto
  have "calculateFeatureStatus_loop v threshold i = calculateFeatureStatus_loop v threshold (Suc i)"
    using less Suc.prems(2) here by (subst calculateFeatureStatus_loop.simps) simp
  also have "\<dots> = calculateFeatureStatus_loop v threshold k"
    using Suc.hyps Suc.prems less by (intro Suc.hyps(1)) auto
  finally show ?case .
qed

lemma sorted_below_index:
  assumes "sorted (threshold :: real list)" "j \<le> m" "m < length threshold" "threshold ! m < v"
  shows "threshold ! j < v"
proof -
  have "threshold ! j \<le> threshold ! m"
    using assms(1-3) by (simp add: sorted_nth_mono)
  then show ?thesis using assms(4) by simp
qed

text \<open>
  Claim C3. For an ascending threshold list \<open>T\<close> and a value \<open>v\<close> with
  \<open>T[i-1] < v \<le> T[i]\<close> (for \<open>i = 0\<close> only \<open>v \<le> T[0]\<close>), \<open>calculateFeatureStatus v T\<close>
  returns \<open>i\<close>; for \<open>v\<close> above the last element of \<open>T\<close> it returns the length of \<open>T\<close>.
\<close>

theorem calculateFeatureStatus_bucket:
  assumes "sorted T"
  shows "(i < length T \<and> (0 < i \<longrightarrow> T ! (i - 1) < v) \<and> v \<le> T ! i
            \<longrightarrow> calculateFeatureStatus v T = int i)
       \<and> (T \<noteq> [] \<and> last T < v \<longrightarrow> calculateFeatureStatus v T = int (length T))"
proof (intro conjI impI)
  assume h: "i < length T \<and> (0 < i \<longrightarrow> T ! (i - 1) < v) \<and> v \<le> T ! i"
  have below: "\<forall>j. 0 \<le> j \<and> j < i \<longrightarrow> T ! j < v"
  proof (intro allI impI)
    fix j assume "0 \<le> j \<and> j < i"
    then have "j \<le> i - 1" "i - 1 < length T" "0 < i" using h by auto
    then show "T ! j < v" using sorted_below_index [OF assms, of j "i - 1" v] h by simp
  qed
  have "calculateFeatureStatus_loop v T 0 = calculateFeatureStatus_loop v T i"
    using h below by (intro calculateFeatureStatus_loop_skip) auto
  also have "\<dots> = int i"
    using h by (subst calculateFeatureStatus_loop.simps) simp
  finally show "calculateFeatureStatus v T = int i"
    by (simp add: calculateFeatureStatus_def)
next
  assume h: "T \<noteq> [] \<and> last T < v"
  then have lastv: "T ! (length T - 1) < v" using last_conv_nth [of T] by auto
  have below: "\<forall>j. 0 \<le> j \<and> j < length T \<longrightarrow> T ! j < v"
  proof (intro allI impI)
    fix j assume "0 \<le> j \<and> j < length T"
    then have "j \<le> length T - 1" "length T - 1 < length T" by auto
    then show "T ! j < v" using sorted_below_index [OF assms, of j "length T - 1" v] lastv by simp
  qed
  have "calculateFeatureStatus_loop v T 0 = calculateFeatureStatus_loop v T (length T)"
    using below by (intro calculateFeatureStatus_loop_skip) auto
  also have "\<dots> = int (length T)"
    by (subst calculateFeatureStatus_loop.simps) simp
  finally show "calculateFeatureStatus v T = int (length T)"
    by (simp add: calculateFeatureStatus_def)
qed

theorem calculateFeatureStatus_bucket_witness:
  "sorted [0, 100, 200 :: real]
   \<and> calculateFeatureStatus 150 [0, 100, 200] = 2
   \<and> calculateFeatureStatus 250 [0, 100, 200] = 3"
proof -
  have s: "sorted [0, 100, 200 :: real]" by simp
  show ?thesis
    using s calculateFeatureStatus_bucket [OF s, of 2 150]
      calculateFeatureStatus_bucket [OF s, of 0 250]
    by simp
qed

text \<open>
  Claim C4. For a non-empty vector of sub-statuses, when \<open>veto_index\<close> is in range and
  the sub-status at that index is 0, \<open>calculateOverallStatus\<close> returns 0, whatever the
  other sub-statuses and \<open>run_feature_num\<close> are.
\<close>

theorem calculateOverallStatus_veto:
  assumes "feature_statuses \<noteq> []"
    and "0 \<le> veto_index cfg" and "veto_index cfg < int (length feature_statuses)"
    and "feature_statuses ! nat (veto_index cfg) = 0"
  shows "calculateOverallStatus cfg feature_statuses = 0"
  using assms by (simp add: calculateOverallStatus_def)

theorem calculateOverallStatus_veto_witness:
  "[0, 2, 3] \<noteq> ([] :: int list)
   \<and> calculateOverallStatus
        ((default_classify_config [''a'', ''b'', ''c''] [[0], [0], [0]])\<lparr>veto_index := 0\<rparr>)
        [0, 2, 3] = 0"
  using calculateOverallStatus_veto
    [of "[0, 2, 3]" "(default_classify_config [''a'', ''b'', ''c''] [[0], [0], [0]])\<lparr>veto_index := 0\<rparr>"]
  by (simp add: default_classify_config_def)


section \<open>Properties of the classification state machine\<close>

lemmas classify_eval =
  classifyStatus_def default_classify_config_def initial_classify_state_def offlineCheck_def
  calculateFeatureStatus_def calculateFeatureStatus_loop.simps calculateOverallStatus_def
  run_count_of_def transitionBlock_def addStatusToHistory_def max_history_size_def
  setData_int_def setData_string_def setData_double_def PluginResultImpl_def
  handleTransition_def handleTimeSeriesTransition_def duration_seconds_def
  ticks_per_second_def resetState_def getIntData_def

text \<open>
  Claim C2 at two readings. The plugin carries a transition width of 60 calls for a
  start, a transition counter and a transition status, and still a plugin that has
  emitted status 0 for a reading below the first threshold emits status 1 on the very
  next call, after a single reading of the new raw status: the counter is moved to 1,
  and nothing holds the changed status back.
\<close>

theorem classifyStatus_change_emitted_at_once:
  "fst (transition_width (default_classify_config [''mean_hf''] [[0, 100, 200]])) = 60
   \<and> emitted_status (classifyStatus (default_classify_config [''mean_hf''] [[0, 100, 200]])
        1000000000000 (FeatureData [''mean_hf'' \<mapsto> - 1]) initial_classify_state
        PluginResultImpl) = Some 0
   \<and> emitted_status (classifyStatus (default_classify_config [''mean_hf''] [[0, 100, 200]])
        1001000000000 (FeatureData [''mean_hf'' \<mapsto> 150])
        (state_after (classifyStatus (default_classify_config [''mean_hf''] [[0, 100, 200]])
           1000000000000 (FeatureData [''mean_hf'' \<mapsto> - 1]) initial_classify_state
           PluginResultImpl))
        PluginResultImpl) = Some 1
   \<and> transition_counter (state_after (classifyStatus
        (default_classify_config [''mean_hf''] [[0, 100, 200]])
        1001000000000 (FeatureData [''mean_hf'' \<mapsto> 150])
        (state_after (classifyStatus (default_classify_config [''mean_hf''] [[0, 100, 200]])
           1000000000000 (FeatureData [''mean_hf'' \<mapsto> - 1]) initial_classify_state
           PluginResultImpl))
        PluginResultImpl)) = 1"
  by (simp add: classify_eval emitted_status_def state_after_def Let_def)

lemma featureStatuses_missing:
  "find (\<lambda>n. features n = None) names = Some n \<Longrightarrow> length acc + length names \<le> length ths \<Longrightarrow>
   featureStatuses features ths names acc = Some (Inl (MissingFeature n))"
proof (induction names arbitrary: acc)
  case Nil
  then show ?case by simp
next
  case (Cons a names)
  show ?case
  proof (cases "features a")
    case None
    then show ?thesis using Cons.prems(1) by simp
  next
    case (Some v)
    with Cons.prems have f: "find (\<lambda>n. features n = None) names = Some n" by simp
    have len: "length (acc @ [calculateFeatureStatus v (ths ! length acc)]) + length names
                 \<le> length ths"
      using Cons.prems(2) by simp
    have "length acc < length ths" using Cons.prems(2) by simp
    then show ?thesis using Some Cons.IH [OF f len] by simp
  qed
qed

text \<open>
  Claim C5, as stated, fails: the offline check runs before the features are looked up.
  A plugin last read at second 1, with status 1 and counters 7 and 3, is called at second
  4000 with no feature at all: the call fails with the missing feature, and has moved
  \<open>prev_time\<close> and reset the status and the counters.
\<close>

theorem classifyStatus_missing_feature_counterexample:
  "classifyStatus (default_classify_config [''mean_hf''] [[0, 100, 200]]) 4000000000000
     (FeatureData Map.empty)
     (initial_classify_state\<lparr>prev_time := 1000000000, transition_counter := 7,
        close_counter := 3, prev_status := 1\<rparr>)
     PluginResultImpl
   = Some (False,
       initial_classify_state\<lparr>prev_time := 4000000000000, transition_counter := 0,
         close_counter := 0, prev_status := - 1,
         last_error := Some (MissingFeature ''mean_hf'')\<rparr>,
       PluginResultImpl)"
  by (simp add: classify_eval Let_def)

text \<open>
  Claim C5, amended. When the input lacks a selected feature (and every selected feature
  has its threshold list), the call fails with \<open>MissingFeature\<close> for the first such
  feature and leaves the output record and the status history as they were. The offline
  check has run by then: \<open>prev_time\<close> is the time of the call, and \<open>prev_status\<close> and the
  three counters are unchanged unless the gap since the previous reading exceeds
  \<open>offline_length\<close>, in which case they are reset.
\<close>

theorem classifyStatus_missing_feature:
  assumes "find (\<lambda>n. features n = None) (select_features cfg) = Some n"
    and "length (select_features cfg) \<le> length (thresholds cfg)"
  shows "classifyStatus cfg now (FeatureData features) st output
           = Some (False, (offlineCheck cfg now st)\<lparr>last_error := Some (MissingFeature n)\<rparr>, output)
       \<and> status_history (offlineCheck cfg now st) = status_history st
       \<and> prev_time (offlineCheck cfg now st) = now
       \<and> (if prev_time st \<noteq> 0 \<and> duration_seconds now (prev_time st) > offline_length cfg
          then prev_status (offlineCheck cfg now st) = - 1
             \<and> transition_counter (offlineCheck cfg now st) = 0
             \<and> close_counter (offlineCheck cfg now st) = 0
             \<and> time_series_counter (offlineCheck cfg now st) = 0
          else prev_status (offlineCheck cfg now st) = prev_status st
             \<and> transition_counter (offlineCheck cfg now st) = transition_counter st
             \<and> close_counter (offlineCheck cfg now st) = close_counter st
             \<and> time_series_counter (offlineCheck cfg now st) = time_series_counter st)"
proof -
  have "featureStatuses features (thresholds cfg) (select_features cfg) []
          = Some (Inl (MissingFeature n))"
    using featureStatuses_missing [OF assms(1), of "[]" "thresholds cfg"] assms(2) by simp
  then have "classifyStatus cfg now (FeatureData features) st output
           = Some (False, (offlineCheck cfg now st)\<lparr>last_error := Some (MissingFeature n)\<rparr>, output)"
    by (simp add: classifyStatus_def)
  then show ?thesis
    by (simp add: offlineCheck_def resetState_def)
qed

theorem classifyStatus_missing_feature_witness:
  "find (\<lambda>n. [''mean_hf'' \<mapsto> (150::real)] n = None) [''mean_hf'', ''mean_lf''] = Some ''mean_lf''
   \<and> classifyStatus (default_classify_config [''mean_hf'', ''mean_lf''] [[0, 100, 200], [0, 50]])
        1001000000000 (FeatureData [''mean_hf'' \<mapsto> 150])
        (initial_classify_state\<lparr>prev_time := 1000000000000, prev_status := 1, status_history := [1]\<rparr>)
        PluginResultImpl
     = Some (False,
         initial_classify_state\<lparr>prev_time := 1001000000000, prev_status := 1, status_history := [1],
            last_error := Some (MissingFeature ''mean_lf'')\<rparr>,
         PluginResultImpl)"
  using classifyStatus_missing_feature
    [of "[''mean_hf'' \<mapsto> 150]" "default_classify_config [''mean_hf'', ''mean_lf''] [[0, 100, 200], [0, 50]]"
        "''mean_lf''" 1001000000000
        "initial_classify_state\<lparr>prev_time := 1000000000000, prev_status := 1, status_history := [1]\<rparr>"
        PluginResultImpl]
  by (simp add: classify_eval)


section \<open>Properties of the score alarms\<close>

lemma duration_seconds_less:
  assumes "t0 \<le> now" and "now - t0 < interval * ticks_per_second"
  shows "duration_seconds now t0 < interval"
proof -
  have pos: "0 < ticks_per_second" by (simp add: ticks_per_second_def)
  have "\<not> interval \<le> (now - t0) div ticks_per_second"
  proof
    assume "interval \<le> (now - t0) div ticks_per_second"
    then have "interval * ticks_per_second \<le> (now - t0) div ticks_per_second * ticks_per_second"
      using pos by (simp add: mult_right_mono)
    moreover have "(now - t0) div ticks_per_second * ticks_per_second \<le> now - t0"
      using div_mult_mod_eq [of "now - t0" ticks_per_second]
        pos_mod_sign [OF pos, of "now - t0"] by linarith
    ultimately show False using assms(2) by linarith
  qed
  then show ?thesis using assms(1) by (simp add: duration_seconds_def)
qed

text \<open>
  Claim C6. \<open>updateAlarmState\<close> records the time of a firing for its key; and a call
  made less than \<open>alarm_interval\<close> seconds after the firing recorded for a key returns
  false for that key, whatever the score and the counters are.
\<close>

theorem shouldTriggerAlarm_cooldown:
  "last_alarm_time (updateAlarmState t0 K v0 st0) K = Some t0
   \<and> (last_alarm_time st K = Some t0 \<and> t0 \<le> now \<and> now - t0 < alarm_interval cfg * ticks_per_second
        \<longrightarrow> \<not> shouldTriggerAlarm cfg now st K v)"
  using duration_seconds_less [of t0 now "alarm_interval cfg"]
  by (simp add: updateAlarmState_def shouldTriggerAlarm_def)

theorem shouldTriggerAlarm_cooldown_witness:
  "last_alarm_time (updateAlarmState 0 ''overall_health'' 40 initial_score_alarm_state) ''overall_health'' = Some 0
   \<and> (0::int) \<le> 100000000000
   \<and> \<not> shouldTriggerAlarm
        \<lparr>health_definitions = [''overall_health''], alarm_lines = [60, 80],
          tolerable_length = 5, alarm_interval = 180\<rparr>
        100000000000 (updateAlarmState 0 ''overall_health'' 40 initial_score_alarm_state)
        ''overall_health'' 10"
  using shouldTriggerAlarm_cooldown
    [of 0 "''overall_health''" 40 initial_score_alarm_state
        "updateAlarmState 0 ''overall_health'' 40 initial_score_alarm_state" 100000000000
        "\<lparr>health_definitions = [''overall_health''], alarm_lines = [60, 80],
          tolerable_length = 5, alarm_interval = 180\<rparr>" 10]
  by (simp add: ticks_per_second_def)

text \<open>
  Claim C7 at a fresh key. A plugin initialised with \<open>tolerable_length = 5\<close> answers
  true on the first call for a key that has never breached: \<open>tolerable_length\<close> is
  stored and never read, and the count compared with the stored tolerable count is the
  number of alarms fired.
\<close>

theorem shouldTriggerAlarm_fresh_key_fires:
  "validateParameters \<lparr>health_define = [''overall_health''], alarm_line = [60, 80],
       tolerable_length_param = Some 5, alarm_interval_param = Some 180\<rparr>
     = Some \<lparr>health_definitions = [''overall_health''], alarm_lines = [60, 80],
          tolerable_length = 5, alarm_interval = 180\<rparr>
   \<and> shouldTriggerAlarm
        \<lparr>health_definitions = [''overall_health''], alarm_lines = [60, 80],
          tolerable_length = 5, alarm_interval = 180\<rparr>
        1000000000000 initial_score_alarm_state ''overall_health'' 40"
  by (simp add: validateParameters_def shouldTriggerAlarm_def initial_score_alarm_state_def)


section \<open>Properties of the health composition\<close>

lemma weighted_loop_total:
  "snd (weighted_loop dops feature_scores ds ws weighted_sum total_weight)
     = foldl (double_add dops) total_weight
         (map snd (filter (\<lambda>(d, w). feature_scores d \<noteq> None) (zip ds ws)))"
  by (induction dops feature_scores ds ws weighted_sum total_weight rule: weighted_loop.induct)
     (auto split: option.splits)

lemma health_of_default:
  "formula config \<noteq> ''weighted_average'' \<or> resolved_weight_sum dops feature_scores config = 0
   \<Longrightarrow> health_of dops config feature_scores = 100"
  using weighted_loop_total [of dops feature_scores "dependencies config" "weights config" 0 0]
  by (auto simp add: health_of_def resolved_weight_sum_def resolved_weights_def
      split: prod.splits)

lemma fold_health_other:
  "name config \<notin> name ` set post \<Longrightarrow>
   fold (\<lambda>c hs. hs(name c \<mapsto> health_of dops c feature_scores)) post acc (name config)
     = acc (name config)"
  by (induction post arbitrary: acc) auto

text \<open>
  Claim C9. A configuration whose formula is not \<open>weighted_average\<close>, or whose resolved
  dependency weights sum to 0 (the sum being the total the code forms, in double
  arithmetic, whatever the rounding), gets the neutral score 100 for its health output:
  the entry of its name that the last configuration of that name leaves in the result.
\<close>

theorem calculateOverallHealth_fail_open:
  assumes "configs = pre @ config # post"
    and "name config \<notin> name ` set post"
    and "formula config \<noteq> ''weighted_average''
         \<or> resolved_weight_sum dops feature_scores config = 0"
  shows "calculateOverallHealth dops configs feature_scores (name config) = Some 100"
  using assms(1) fold_health_other [OF assms(2)] health_of_default [OF assms(3)]
  by (simp add: calculateOverallHealth_def)

theorem calculateOverallHealth_fail_open_witness:
  "resolved_weight_sum exact_double_ops [''vibration_health'' \<mapsto> 80, ''current_health'' \<mapsto> 90]
      \<lparr>name = ''overall_health'', formula = ''weighted_average'', weights = [1, - 1, 3],
        dependencies = [''vibration_health'', ''current_health'', ''temperature_health'']\<rparr> = 0
   \<and> calculateOverallHealth exact_double_ops
        [\<lparr>name = ''overall_health'', formula = ''weighted_average'', weights = [1, - 1, 3],
          dependencies = [''vibration_health'', ''current_health'', ''temperature_health'']\<rparr>]
        [''vibration_health'' \<mapsto> 80, ''current_health'' \<mapsto> 90] ''overall_health'' = Some 100
   \<and> calculateOverallHealth exact_double_ops
        [\<lparr>name = ''trend'', formula = ''geometric_mean'', weights = [1],
          dependencies = [''vibration_health'']\<rparr>]
        [''vibration_health'' \<mapsto> 80, ''current_health'' \<mapsto> 90] ''trend'' = Some 100"
  using calculateOverallHealth_fail_open
    [of "[\<lparr>name = ''overall_health'', formula = ''weighted_average'', weights = [1, - 1, 3],
          dependencies = [''vibration_health'', ''current_health'', ''temperature_health'']\<rparr>]"
        "[]"
        "\<lparr>name = ''overall_health'', formula = ''weighted_average'', weights = [1, - 1, 3],
          dependencies = [''vibration_health'', ''current_health'', ''temperature_health'']\<rparr>"
        "[]" exact_double_ops "[''vibration_health'' \<mapsto> 80, ''current_health'' \<mapsto> 90]"]
    calculateOverallHealth_fail_open
    [of "[\<lparr>name = ''trend'', formula = ''geometric_mean'', weights = [1],
          dependencies = [''vibration_health'']\<rparr>]"
        "[]"
        "\<lparr>name = ''trend'', formula = ''geometric_mean'', weights = [1],
          dependencies = [''vibration_health'']\<rparr>"
        "[]" exact_double_ops "[''vibration_health'' \<mapsto> 80, ''current_health'' \<mapsto> 90]"]
  by (simp add: resolved_weight_sum_def resolved_weights_def exact_double_ops_def)


section \<open>Properties of the chains\<close>

lemma set_instances_same:
  "plugin_instances cm c = Some instances \<Longrightarrow>
   cm\<lparr>plugin_instances := (plugin_instances cm)(c \<mapsto> instances)\<rparr> = cm"
  by (simp add: map_upd_triv)

lemma executeChain_loop_in_order:
  "plugin_instances cm c = Some instances \<Longrightarrow>
   executeChain_loop ops c config i d r cm =
     (case run_stages_in_order ops instances (drop i (plugin_names config)) d r of
        (ok, instances1, r1) \<Rightarrow>
          (ok, cm\<lparr>plugin_instances := (plugin_instances cm)(c \<mapsto> instances1)\<rparr>, r1))"
proof (induction "length (plugin_names config) - i" arbitrary: i r cm instances)
  case 0
  then show ?case
    by (subst executeChain_loop.simps) (simp add: set_instances_same)
next
  case (Suc n)
  let ?stage = "plugin_names config ! i"
  from Suc.hyps(2) have less: "i < length (plugin_names config)" by simp
  then have dr: "drop i (plugin_names config) = ?stage # drop (Suc i) (plugin_names config)"
    by (simp add: Cons_nth_drop_Suc)
  show ?case
  proof (cases "instances ?stage")
    case None
    then show ?thesis
      using less Suc.prems dr
      by (subst executeChain_loop.simps)
         (simp add: executePluginInChain_def set_instances_same)
  next
    case (Some plugin)
    obtain ok plugin1 r1 where pr: "process ops plugin d r = (ok, plugin1, r1)"
      by (cases "process ops plugin d r")
    let ?cm1 = "cm\<lparr>plugin_instances := (plugin_instances cm)(c \<mapsto> instances(?stage \<mapsto> plugin1))\<rparr>"
    have ex: "executePluginInChain ops c ?stage d r cm = (ok, ?cm1, r1)"
      using Suc.prems Some pr by (simp add: executePluginInChain_def)
    have unfold: "executeChain_loop ops c config i d r cm =
        (if \<not> ok then (False, ?cm1, r1) else executeChain_loop ops c config (Suc i) d r1 ?cm1)"
      using less ex
      by (subst executeChain_loop.simps) (simp add: convertDataForPlugin_def Let_def)
    show ?thesis
    proof (cases ok)
      case False
      then show ?thesis using unfold dr Some pr by simp
    next
      case True
      have n: "n = length (plugin_names config) - Suc i" using Suc.hyps(2) by simp
      have inst1: "plugin_instances ?cm1 c = Some (instances(?stage \<mapsto> plugin1))" by simp
      have "executeChain_loop ops c config (Suc i) d r1 ?cm1 =
          (case run_stages_in_order ops (instances(?stage \<mapsto> plugin1))
                  (drop (Suc i) (plugin_names config)) d r1 of
             (ok, instances1, r1) \<Rightarrow>
               (ok, ?cm1\<lparr>plugin_instances := (plugin_instances ?cm1)(c \<mapsto> instances1)\<rparr>, r1))"
        by (rule Suc.hyps(1) [OF n inst1])
      then show ?thesis using unfold True dr Some pr by simp
    qed
  qed
qed

lemma run_stages_in_order_append:
  "run_stages_in_order ops instances (xs @ ys) d r =
     (case run_stages_in_order ops instances xs d r of
        (ok, instances1, r1) \<Rightarrow>
          if ok then run_stages_in_order ops instances1 ys d r1 else (False, instances1, r1))"
  by (induction xs arbitrary: instances r) (auto split: option.splits prod.splits)

lemma run_stages_in_order_first_failure:
  assumes "run_stages_in_order ops instances pre d r = (True, instances1, r1)"
    and "run_stages_in_order ops instances1 [failing] d r1 = (False, instances2, r2)"
  shows "run_stages_in_order ops instances (pre @ failing # post) d r = (False, instances2, r2)"
  using assms
  by (simp add: run_stages_in_order_append split: option.splits prod.splits if_splits)

text \<open>
  Claim C8. For a chain that is registered with its instances, \<open>executeChain\<close> is the
  run of the stages in their declared order on one record that starts empty. When the
  stages before some stage succeed and that stage fails, \<open>executeChain\<close> returns false,
  the caller's output record is as it was, and the plugins are as the stages up to the
  failing one left them, whatever stages are declared after it.
\<close>

theorem executeChain_in_order_first_failure:
  assumes "plugin_chains cm c = Some config"
    and "plugin_instances cm c = Some instances"
  shows "executeChain ops c d output cm =
           (case run_stages_in_order ops instances (plugin_names config) d PluginResultImpl of
              (ok, instances1, r1) \<Rightarrow>
                (ok, cm\<lparr>plugin_instances := (plugin_instances cm)(c \<mapsto> instances1)\<rparr>,
                 if ok then PluginResult_assign output r1 else output))
       \<and> (plugin_names config = pre @ failing # post
            \<and> run_stages_in_order ops instances pre d PluginResultImpl = (True, instances1, r1)
            \<and> run_stages_in_order ops instances1 [failing] d r1 = (False, instances2, r2)
          \<longrightarrow> executeChain ops c d output cm =
                (False, cm\<lparr>plugin_instances := (plugin_instances cm)(c \<mapsto> instances2)\<rparr>, output))"
proof -
  have eq: "executeChain ops c d output cm =
           (case run_stages_in_order ops instances (plugin_names config) d PluginResultImpl of
              (ok, instances1, r1) \<Rightarrow>
                (ok, cm\<lparr>plugin_instances := (plugin_instances cm)(c \<mapsto> instances1)\<rparr>,
                 if ok then PluginResult_assign output r1 else output))"
    using assms(1) executeChain_loop_in_order [OF assms(2), of ops config 0 d PluginResultImpl]
    by (simp add: executeChain_def split: prod.splits)
  show ?thesis
  proof (intro conjI impI)
    show "executeChain ops c d output cm =
           (case run_stages_in_order ops instances (plugin_names config) d PluginResultImpl of
              (ok, instances1, r1) \<Rightarrow>
                (ok, cm\<lparr>plugin_instances := (plugin_instances cm)(c \<mapsto> instances1)\<rparr>,
                 if ok then PluginResult_assign output r1 else output))"
      by (rule eq)
  next
    assume h: "plugin_names config = pre @ failing # post
            \<and> run_stages_in_order ops instances pre d PluginResultImpl = (True, instances1, r1)
            \<and> run_stages_in_order ops instances1 [failing] d r1 = (False, instances2, r2)"
    then have "run_stages_in_order ops instances (plugin_names config) d PluginResultImpl
                 = (False, instances2, r2)"
      using run_stages_in_order_first_failure [of ops instances pre d PluginResultImpl instances1 r1 failing instances2 r2 post]
      by simp
    then show "executeChain ops c d output cm =
                (False, cm\<lparr>plugin_instances := (plugin_instances cm)(c \<mapsto> instances2)\<rparr>, output)"
      using eq by simp
  qed
qed

theorem executeChain_in_order_first_failure_witness:
  "fst (executeChain counting_ops ''abc'' (FeatureData Map.empty)
          (setData_int ''old'' 7 PluginResultImpl)
          \<lparr>plugin_chains = [''abc'' \<mapsto> \<lparr>chain_name = ''abc'', plugin_names = [''A'', ''B'', ''C''],
                                       plugin_params = [], data_mappings = Map.empty\<rparr>],
           plugin_instances = [''abc'' \<mapsto> [''A'' \<mapsto> (True, 0), ''B'' \<mapsto> (False, 0), ''C'' \<mapsto> (True, 0)]]\<rparr>)
     = False
   \<and> snd (snd (executeChain counting_ops ''abc'' (FeatureData Map.empty)
          (setData_int ''old'' 7 PluginResultImpl)
          \<lparr>plugin_chains = [''abc'' \<mapsto> \<lparr>chain_name = ''abc'', plugin_names = [''A'', ''B'', ''C''],
                                       plugin_params = [], data_mappings = Map.empty\<rparr>],
           plugin_instances = [''abc'' \<mapsto> [''A'' \<mapsto> (True, 0), ''B'' \<mapsto> (False, 0), ''C'' \<mapsto> (True, 0)]]\<rparr>))
     = setData_int ''old'' 7 PluginResultImpl
   \<and> map (the (plugin_instances (fst (snd (executeChain counting_ops ''abc'' (FeatureData Map.empty)
          (setData_int ''old'' 7 PluginResultImpl)
          \<lparr>plugin_chains = [''abc'' \<mapsto> \<lparr>chain_name = ''abc'', plugin_names = [''A'', ''B'', ''C''],
                                       plugin_params = [], data_mappings = Map.empty\<rparr>],
           plugin_instances = [''abc'' \<mapsto> [''A'' \<mapsto> (True, 0), ''B'' \<mapsto> (False, 0), ''C'' \<mapsto> (True, 0)]]\<rparr>)))
         ''abc'')) [''A'', ''B'', ''C'']
     = [Some (True, 1), Some (False, 1), Some (True, 0)]"
proof -
  let ?config = "\<lparr>chain_name = ''abc'', plugin_names = [''A'', ''B'', ''C''],
                   plugin_params = ([] :: bool option list), data_mappings = Map.empty\<rparr>"
  let ?instances = "[''A'' \<mapsto> (True, 0::nat), ''B'' \<mapsto> (False, 0), ''C'' \<mapsto> (True, 0)]"
  let ?cm = "\<lparr>plugin_chains = [''abc'' \<mapsto> ?config], plugin_instances = [''abc'' \<mapsto> ?instances]\<rparr>"
  let ?out = "setData_int ''old'' 7 PluginResultImpl"
  let ?d = "FeatureData Map.empty"
  let ?r1 = "setData_int ''calls'' 1 PluginResultImpl"
  have c: "plugin_chains ?cm ''abc'' = Some ?config" by simp
  have i: "plugin_instances ?cm ''abc'' = Some ?instances" by simp
  have n: "plugin_names ?config = [''A''] @ ''B'' # [''C'']" by simp
  have pre: "run_stages_in_order counting_ops ?instances [''A''] ?d PluginResultImpl
               = (True, ?instances(''A'' \<mapsto> (True, 1)), ?r1)"
    by (simp add: counting_ops_def)
  have fail: "run_stages_in_order counting_ops (?instances(''A'' \<mapsto> (True, 1))) [''B''] ?d ?r1
               = (False, ?instances(''A'' \<mapsto> (True, 1), ''B'' \<mapsto> (False, 1)), setData_int ''calls'' 1 ?r1)"
    by (simp add: counting_ops_def)
  have "executeChain counting_ops ''abc'' ?d ?out ?cm =
          (False, ?cm\<lparr>plugin_instances := (plugin_instances ?cm)(''abc'' \<mapsto>
              ?instances(''A'' \<mapsto> (True, 1), ''B'' \<mapsto> (False, 1)))\<rparr>, ?out)"
    using executeChain_in_order_first_failure [OF c i, THEN conjunct2, rule_format, OF conjI [OF n conjI [OF pre fail]]]
    by simp
  then show ?thesis by simp
qed

text \<open>
  Claim C1 at two chains. When a stage names a plugin that is not registered,
  \<open>createChain\<close> returns false and the manager is as it was. When both plugins are
  registered and the second rejects its parameters, \<open>createChain\<close> returns false and
  the manager it leaves has the chain registered (\<open>isChainAvailable\<close> holds,
  \<open>getChainPlugins\<close> lists both stages) with the instance of the first stage only.
\<close>

theorem createChain_failed_init_leaves_chain:
  "createChain counting_ops [''vibrate31'' \<mapsto> Some (True, 0)]
      \<lparr>chain_name = ''monitor'', plugin_names = [''vibrate31'', ''motor97''],
        plugin_params = [Some True, Some False], data_mappings = Map.empty\<rparr>
      empty_chain_manager = (False, empty_chain_manager)
   \<and> fst (createChain counting_ops
          [''vibrate31'' \<mapsto> Some (True, 0), ''motor97'' \<mapsto> Some (True, 0)]
          \<lparr>chain_name = ''monitor'', plugin_names = [''vibrate31'', ''motor97''],
            plugin_params = [Some True, Some False], data_mappings = Map.empty\<rparr>
          empty_chain_manager) = False
   \<and> isChainAvailable (snd (createChain counting_ops
          [''vibrate31'' \<mapsto> Some (True, 0), ''motor97'' \<mapsto> Some (True, 0)]
          \<lparr>chain_name = ''monitor'', plugin_names = [''vibrate31'', ''motor97''],
            plugin_params = [Some True, Some False], data_mappings = Map.empty\<rparr>
          empty_chain_manager)) ''monitor''
   \<and> getChainPlugins (snd (createChain counting_ops
          [''vibrate31'' \<mapsto> Some (True, 0), ''motor97'' \<mapsto> Some (True, 0)]
          \<lparr>chain_name = ''monitor'', plugin_names = [''vibrate31'', ''motor97''],
            plugin_params = [Some True, Some False], data_mappings = Map.empty\<rparr>
          empty_chain_manager)) ''monitor'' = [''vibrate31'', ''motor97'']
   \<and> plugin_instances (snd (createChain counting_ops
          [''vibrate31'' \<mapsto> Some (True, 0), ''motor97'' \<mapsto> Some (True, 0)]
          \<lparr>chain_name = ''monitor'', plugin_names = [''vibrate31'', ''motor97''],
            plugin_params = [Some True, Some False], data_mappings = Map.empty\<rparr>
          empty_chain_manager)) ''monitor'' = Some [''vibrate31'' \<mapsto> (True, 0)]"
  by (simp add: createChain_def isPluginAvailable_def initializeChainPlugins_def
      initializeChainPlugins_loop.simps createPlugin_params_def createPlugin_def
      getPluginFactory_def counting_ops_def store_instance_def empty_chain_manager_def
      isChainAvailable_def getChainPlugins_def Let_def)

end
